theory Spec2Isabelle
  imports Complex_Main
begin

section \<open>The reddit OAuth drop-in (oauth_dropins/reddit.py)\<close>

text \<open>
  The module has two request handlers: \<open>StartHandler.redirect_url\<close>, which stores a
  request token and builds the authorization URL, and \<open>CallbackHandler.get\<close>, which
  checks the returned state, exchanges the code and stores a \<open>RedditAuth\<close> entity.
  Both are embedded below as functions that take the datastore and return the result
  (an exception is \<open>Inl\<close>) together with the datastore they leave behind.
\<close>

subsection \<open>Python values and exceptions\<close>

text \<open>The exceptions the two handlers can end with.\<close>

datatype error =
    AssertionError
  | HTTPBadRequest string
  | NameError string
  | TypeError
  | AttributeError string
  | BadValueError
  | PrawError string
  | DecodeError string

text \<open>Attribute values of a praw \<open>Redditor\<close>.\<close>

datatype pyval = PyStr string | PyInt int | PyFloat real | PyBool bool | PyNone

text \<open>
  Truth value of \<open>x\<close> where \<open>x\<close> is \<open>None\<close> or a string: \<open>None\<close> and the empty
  string are false.
\<close>

fun truthy :: "string option \<Rightarrow> bool" where
  "truthy None = False"
| "truthy (Some s) = (s \<noteq> [])"

text \<open>
  \<open>sub in s\<close> on two Python strings is the substring test. Line 97 writes
  \<open>error in ('access_denied')\<close>: the parentheses hold a string, not a one-element
  tuple, so this is the test that applies there.
\<close>

fun str_in :: "string \<Rightarrow> string \<Rightarrow> bool" where
  "str_in sub [] = (sub = [])"
| "str_in sub (c # s) = (take (length sub) (c # s) = sub \<or> str_in sub s)"

text \<open>\<open>str(n)\<close> for a non-negative Python integer: its decimal digits.\<close>

definition digit_char :: "nat \<Rightarrow> char" where
  "digit_char d = ''0123456789'' ! (d mod 10)"

fun str_nat :: "nat \<Rightarrow> string" where
  "str_nat n = (if n < 10 then [digit_char n] else str_nat (n div 10) @ [digit_char (n mod 10)])"

declare str_nat.simps [simp del]

definition str_int :: "int \<Rightarrow> string" where
  "str_int i = (if i < 0 then CHR ''-'' # str_nat (nat (- i)) else str_nat (nat i))"

subsection \<open>Datastore entities\<close>

text \<open>
  \<open>models.OAuthRequestToken(id=state, token_secret=state, state=state)\<close> (line 72) and
  \<open>RedditAuth(id=user_id, refresh_token=..., user_json=...)\<close> (lines 25-38, 131).
\<close>

record OAuthRequestToken =
  token_id :: string
  token_secret :: string
  token_state :: string

record RedditAuth =
  auth_id :: string
  refresh_token :: string
  user_json :: string

text \<open>
  Modelled from the spec: \<open>models.OAuthRequestToken\<close> and \<open>models.BaseAuth\<close>
  (models.py) and the ndb calls \<open>put\<close> and \<open>get_by_id\<close> they inherit are not part of
  the module. The spec describes both stores as accessed by single-key read and write
  (get-by-id, put) with writes immediately visible to later reads of the same key, and
  a put under an existing key as overwriting the record. Each kind is a map from key
  id to entity.
\<close>

record datastore =
  request_tokens :: "string \<rightharpoonup> OAuthRequestToken"
  reddit_auths :: "string \<rightharpoonup> RedditAuth"

definition put_request_token :: "OAuthRequestToken \<Rightarrow> datastore \<Rightarrow> datastore" where
  "put_request_token t ds = ds\<lparr>request_tokens := (request_tokens ds)(token_id t \<mapsto> t)\<rparr>"

definition get_request_token_by_id :: "datastore \<Rightarrow> string \<Rightarrow> OAuthRequestToken option" where
  "get_request_token_by_id ds k = request_tokens ds k"

definition put_reddit_auth :: "RedditAuth \<Rightarrow> datastore \<Rightarrow> datastore" where
  "put_reddit_auth a ds = ds\<lparr>reddit_auths := (reddit_auths ds)(auth_id a \<mapsto> a)\<rparr>"

subsection \<open>The request and the collaborators\<close>

text \<open>
  The incoming request: \<open>self.request.host_url\<close> and the query parameters.
  \<open>self.request.get(name)\<close> is the parameter's value, or the empty string when the
  parameter is absent.
\<close>

record request =
  host_url :: string
  params :: "(string \<times> string) list"

definition request_get :: "request \<Rightarrow> string \<Rightarrow> string" where
  "request_get req name = (case map_of (params req) name of None \<Rightarrow> [] | Some v \<Rightarrow> v)"

text \<open>
  The praw client. \<open>praw.Reddit(client_id=..., client_secret=..., redirect_uri=...,
  user_agent=...)\<close> is built on every request from these four arguments; of the object
  it returns the handlers use \<open>auth.url\<close>, \<open>auth.authorize\<close> (the refresh token, or
  \<open>None\<close>) and \<open>user.me\<close>. The two calls that reach the provider may raise.
  A \<open>Redditor\<close> is read through \<open>getattr\<close> and \<open>str\<close>.
\<close>

record praw_args =
  client_id :: "string option"
  client_secret :: "string option"
  redirect_uri :: string
  user_agent :: string

record redditor =
  attributes :: "(string \<times> pyval) list"
  str_of :: string

record reddit =
  auth_url :: "string list \<Rightarrow> string \<Rightarrow> string \<Rightarrow> string"
  auth_authorize :: "string \<Rightarrow> error + string option"
  user_me :: "error + redditor"

text \<open>
  What the module takes from outside: the two application credentials read at import
  (lines 22-23; \<open>None\<close> when the file is missing), the praw constructor, and the
  helpers of \<open>webutil.util\<close>. The state blob is a dict with string values; a dict is a
  list of pairs in insertion order.
\<close>

record env =
  REDDIT_APP_KEY :: "string option"
  REDDIT_APP_SECRET :: "string option"
  praw_Reddit :: "praw_args \<Rightarrow> reddit"
  encode_oauth_state :: "(string \<times> string) list \<Rightarrow> string"
  decode_oauth_state :: "string \<Rightarrow> error + (string \<times> string) list"
  json_dumps :: "(string \<times> pyval) list \<Rightarrow> string"

text \<open>
  Module import, lines 22-23: the two constants are bound to whatever \<open>util.read\<close>
  returns; an exception raised by \<open>util.read\<close> is the only way the import fails.
\<close>

definition load_module ::
  "(string \<Rightarrow> error + string option) \<Rightarrow> error + (string option \<times> string option)" where
  "load_module read =
     (case read ''reddit_app_key'' of
        Inl e \<Rightarrow> Inl e
      | Inr k \<Rightarrow>
          (case read ''reddit_app_secret'' of
             Inl e \<Rightarrow> Inl e
           | Inr s \<Rightarrow> Inr (k, s)))"

text \<open>The handler attribute \<open>self.to_path\<close> of the start handler.\<close>

record handler =
  to_path :: string

definition USER_AGENT :: string where
  "USER_AGENT = ''oauth-dropin reddit identity checker''"

subsection \<open>StartHandler.redirect_url (lines 60-76)\<close>

text \<open>
  Lines 62-63: a missing or empty \<open>state\<close> is replaced by \<open>str(randint(100000,999999))\<close>.
  The number drawn is the argument \<open>r\<close>.
\<close>

definition start_state :: "string option \<Rightarrow> int \<Rightarrow> string" where
  "start_state state r = (case state of None \<Rightarrow> str_int r | Some s \<Rightarrow> if s = [] then str_int r else s)"

definition redirect_url ::
  "env \<Rightarrow> handler \<Rightarrow> request \<Rightarrow> string option \<Rightarrow> int \<Rightarrow> datastore \<Rightarrow> (error + string) \<times> datastore" where
  "redirect_url env self req state0 r ds =
     (let state = start_state state0 r in
      if \<not> (truthy (REDDIT_APP_KEY env) \<and> truthy (REDDIT_APP_SECRET env))
      then (Inl AssertionError, ds)
      else
        let reddit = praw_Reddit env
              \<lparr>client_id = REDDIT_APP_KEY env,
               client_secret = REDDIT_APP_SECRET env,
               redirect_uri = host_url req @ to_path self,
               user_agent = USER_AGENT\<rparr>;
            ds' = put_request_token
              \<lparr>token_id = state, token_secret = state, token_state = state\<rparr> ds;
            st = encode_oauth_state env [(''state'', state), (''to_path'', to_path self)]
        in (Inr (auth_url reddit [''identity''] st ''permanent''), ds'))"

subsection \<open>CallbackHandler.get (lines 90-135)\<close>

text \<open>
  \<open>self.finish(auth, state=...)\<close> belongs to the handler base class; the call is the
  outcome. Line 99 passes the state token (\<open>st.get('state')\<close>, a string or \<open>None\<close>),
  line 135 passes the decoded dict \<open>st\<close>.
\<close>

datatype state_arg = StateToken "string option" | StateDict "(string \<times> string) list"

datatype finish_call = Finish "RedditAuth option" state_arg

text \<open>Lines 121-128: the dict comprehension over \<open>attribute_list\<close>.\<close>

definition attribute_list :: "string list" where
  "attribute_list =
     [''name'', ''comment_karma'', ''created_utc'', ''id'', ''name'', ''link_karma'', ''icon_img'']"

definition getattr :: "redditor \<Rightarrow> string \<Rightarrow> error + pyval" where
  "getattr user a =
     (case map_of (attributes user) a of None \<Rightarrow> Inl (AttributeError a) | Some v \<Rightarrow> Inr v)"

text \<open>Storing under a key of a dict: an existing key keeps its place, a new one goes last.\<close>

fun dict_set :: "string \<Rightarrow> 'v \<Rightarrow> (string \<times> 'v) list \<Rightarrow> (string \<times> 'v) list" where
  "dict_set k v [] = [(k, v)]"
| "dict_set k v ((k', v') # d) = (if k' = k then (k, v) # d else (k', v') # dict_set k v d)"

fun getattrs :: "redditor \<Rightarrow> string list \<Rightarrow> (string \<times> pyval) list \<Rightarrow> error + (string \<times> pyval) list" where
  "getattrs user [] d = Inr d"
| "getattrs user (a # as) d =
     (case getattr user a of
        Inl e \<Rightarrow> Inl e
      | Inr v \<Rightarrow> getattrs user as (dict_set a v d))"

text \<open>Lines 97-104: the branch taken when the request carries an error or lacks state or code.\<close>

definition on_error :: "string \<Rightarrow> string option \<Rightarrow> datastore \<Rightarrow> (error + finish_call) \<times> datastore" where
  "on_error error state ds =
     (if str_in error ''access_denied''
      then (Inr (Finish None (StateToken state)), ds)
      else (Inl (HTTPBadRequest (''Error: '' @ error)), ds))"

text \<open>Lines 111-135: the exchange, once the request token has been found.\<close>

definition exchange ::
  "env \<Rightarrow> request \<Rightarrow> (string \<times> string) list \<Rightarrow> string option \<Rightarrow> string \<Rightarrow> datastore
     \<Rightarrow> (error + finish_call) \<times> datastore" where
  "exchange env req st to_path' code ds =
     (case to_path' of
        None \<Rightarrow> (Inl TypeError, ds)
      | Some tp \<Rightarrow>
          let reddit = praw_Reddit env
                \<lparr>client_id = REDDIT_APP_KEY env,
                 client_secret = REDDIT_APP_SECRET env,
                 redirect_uri = host_url req @ tp,
                 user_agent = USER_AGENT\<rparr>
          in (case auth_authorize reddit code of
                Inl e \<Rightarrow> (Inl e, ds)
              | Inr refresh_token' \<Rightarrow>
                  (case user_me reddit of
                     Inl e \<Rightarrow> (Inl e, ds)
                   | Inr user \<Rightarrow>
                       (case getattrs user attribute_list [] of
                          Inl e \<Rightarrow> (Inl e, ds)
                        | Inr user_json' \<Rightarrow>
                            let user_id = str_of user in
                            (case refresh_token' of
                               None \<Rightarrow> (Inl BadValueError, ds)
                             | Some rt \<Rightarrow>
                                 let auth = \<lparr>auth_id = user_id, refresh_token = rt,
                                             user_json = json_dumps env user_json'\<rparr>
                                 in (Inr (Finish (Some auth) (StateDict st)),
                                     put_reddit_auth auth ds))))))"

definition get :: "env \<Rightarrow> request \<Rightarrow> datastore \<Rightarrow> (error + finish_call) \<times> datastore" where
  "get env req ds =
     (let error = request_get req ''error'' in
      case decode_oauth_state env (request_get req ''state'') of
        Inl e \<Rightarrow> (Inl e, ds)
      | Inr st \<Rightarrow>
          let state = map_of st ''state'';
              to_path' = map_of st ''to_path'';
              code = request_get req ''code''
          in (case state of
                None \<Rightarrow> on_error error state ds
              | Some s \<Rightarrow>
                  if error \<noteq> [] \<or> s = [] \<or> code = [] then on_error error state ds
                  else
                    (case get_request_token_by_id ds s of
                       None \<Rightarrow> (Inl (NameError ''request_token_key''), ds)
                     | Some request_token \<Rightarrow> exchange env req st to_path' code ds)))"

subsection \<open>The token format\<close>

text \<open>The pattern \<open>^[0-9]{6}$\<close>: six characters, each a decimal digit.\<close>

definition six_digits :: "string \<Rightarrow> bool" where
  "six_digits t = (length t = 6 \<and> set t \<subseteq> set ''0123456789'')"

text \<open>
  The number that a string of decimal digits denotes, \<open>int(s)\<close> on such a string:
  used to say which number a token stands for.
\<close>

definition decimal_value :: "string \<Rightarrow> int" where
  "decimal_value s = foldl (\<lambda>a c. 10 * a + (of_char c - 48)) 0 s"

subsection \<open>Concrete collaborators and requests\<close>

text \<open>
  Stand-ins for the collaborators, used where a property is evaluated on a concrete
  run: a state codec that joins token and path with a bar, a provider that knows two
  codes and one user, and a serialiser that lists the keys.
\<close>

definition test_encode :: "(string \<times> string) list \<Rightarrow> string" where
  "test_encode d =
     (case (map_of d ''state'', map_of d ''to_path'') of
        (Some s, Some p) \<Rightarrow> s @ ''|'' @ p
      | _ \<Rightarrow> [])"

definition test_decode :: "string \<Rightarrow> error + (string \<times> string) list" where
  "test_decode b =
     (if b = [] then Inr []
      else if CHR ''|'' \<in> set b
      then Inr [(''state'', takeWhile (\<lambda>c. c \<noteq> CHR ''|'') b),
                (''to_path'', tl (dropWhile (\<lambda>c. c \<noteq> CHR ''|'') b))]
      else Inl (HTTPBadRequest (''Invalid format for state parameter: '' @ b)))"

definition test_json_dumps :: "(string \<times> pyval) list \<Rightarrow> string" where
  "test_json_dumps d =
     concat (map (\<lambda>(k, v). k @ (case v of PyStr s \<Rightarrow> ''='' @ s | _ \<Rightarrow> []) @ '';'') d)"

definition alice :: redditor where
  "alice =
     \<lparr>attributes =
        [(''name'', PyStr ''alice''), (''comment_karma'', PyInt 10),
         (''created_utc'', PyFloat 1500000000), (''id'', PyStr ''t2a''),
         (''link_karma'', PyInt 3), (''icon_img'', PyStr ''a.png'')],
      str_of = ''alice''\<rparr>"

definition test_reddit :: "praw_args \<Rightarrow> reddit" where
  "test_reddit args =
     \<lparr>auth_url = (\<lambda>scopes st duration.
        ''https://www.reddit.com/api/v1/authorize?scope='' @ concat scopes
          @ ''&state='' @ st @ ''&duration='' @ duration
          @ ''&redirect_uri='' @ redirect_uri args),
      auth_authorize = (\<lambda>code.
        if code = ''abc123'' then Inr (Some ''rt1'')
        else if code = ''xyz789'' then Inr (Some ''rt2'')
        else Inl (PrawError ''invalid_grant'')),
      user_me = Inr alice\<rparr>"

definition test_env :: env where
  "test_env =
     \<lparr>REDDIT_APP_KEY = Some ''key'', REDDIT_APP_SECRET = Some ''secret'',
      praw_Reddit = test_reddit, encode_oauth_state = test_encode,
      decode_oauth_state = test_decode, json_dumps = test_json_dumps\<rparr>"

definition empty_ds :: datastore where
  "empty_ds = \<lparr>request_tokens = Map.empty, reddit_auths = Map.empty\<rparr>"

definition pending_ds :: datastore where
  "pending_ds =
     put_request_token
       \<lparr>token_id = ''123456'', token_secret = ''123456'', token_state = ''123456''\<rparr> empty_ds"

definition callback_req :: "string \<Rightarrow> request" where
  "callback_req code =
     \<lparr>host_url = ''https://app.example'',
      params = [(''state'', ''123456|/cb''), (''code'', code)]\<rparr>"

definition no_code_req :: request where
  "no_code_req = \<lparr>host_url = ''https://app.example'', params = [(''state'', ''123456|/cb'')]\<rparr>"

definition denied_req :: request where
  "denied_req =
     \<lparr>host_url = ''https://app.example'',
      params = [(''error'', ''access_denied''), (''state'', ''123456|/cb'')]\<rparr>"

definition start_req :: request where
  "start_req = \<lparr>host_url = ''https://app.example'', params = []\<rparr>"

definition test_handler :: handler where
  "test_handler = \<lparr>to_path = ''/cb''\<rparr>"

text \<open>A credential directory with no files, and a provider whose token exchange fails.\<close>

definition missing_files :: "string \<Rightarrow> error + string option" where
  "missing_files name = Inr None"

definition failing_reddit :: "praw_args \<Rightarrow> reddit" where
  "failing_reddit args =
     \<lparr>auth_url = auth_url (test_reddit args),
      auth_authorize = (\<lambda>code. Inl (PrawError ''invalid_grant'')),
      user_me = Inr alice\<rparr>"

text \<open>A declined callback whose state parameter the stand-in decoder rejects.\<close>

definition garbled_denied_req :: request where
  "garbled_denied_req =
     \<lparr>host_url = ''https://app.example'',
      params = [(''error'', ''access_denied''), (''state'', ''garbled'')]\<rparr>"

section \<open>Properties\<close>

subsection \<open>Facts about the helpers\<close>

lemma digit_char_is_digit: "digit_char d \<in> set ''0123456789''"
  unfolding digit_char_def by (rule nth_mem) simp

lemma str_nat_digits: "set (str_nat n) \<subseteq> set ''0123456789''"
proof (induction n rule: str_nat.induct)
  case (1 n)
  show ?case
  proof (cases "n < 10")
    case True
    then show ?thesis
      using digit_char_is_digit [of n] by (subst str_nat.simps) simp
  next
    case False
    then show ?thesis
      using 1 digit_char_is_digit [of "n mod 10"] by (subst str_nat.simps) simp
  qed
qed

lemma str_nat_length_step: "10 \<le> n \<Longrightarrow> length (str_nat n) = Suc (length (str_nat (n div 10)))"
  by (subst str_nat.simps) simp

lemma str_nat_length_one: "n < 10 \<Longrightarrow> length (str_nat n) = 1"
  by (subst str_nat.simps) simp

lemma str_nat_length_six:
  assumes "100000 \<le> n" and "n \<le> 999999"
  shows "length (str_nat n) = 6"
proof -
  have steps: "10 \<le> n" "10 \<le> n div 10" "10 \<le> n div 10 div 10"
    "10 \<le> n div 10 div 10 div 10" "10 \<le> n div 10 div 10 div 10 div 10"
    "n div 10 div 10 div 10 div 10 div 10 < 10"
    using assms by arith+
  show ?thesis
    by (simp add: str_nat_length_step steps str_nat_length_one)
qed

lemma str_int_six_digits:
  assumes "100000 \<le> r" and "r \<le> 999999"
  shows "six_digits (str_int r)"
proof -
  have "100000 \<le> nat r" and "nat r \<le> 999999"
    using assms by simp_all
  then have "length (str_nat (nat r)) = 6"
    by (rule str_nat_length_six)
  moreover have "str_int r = str_nat (nat r)"
    using assms by (simp add: str_int_def)
  ultimately show ?thesis
    using str_nat_digits [of "nat r"] by (simp add: six_digits_def)
qed

lemma digit_char_value:
  assumes "d < 10"
  shows "of_char (digit_char d) - 48 = int d"
proof -
  from assms have "d \<in> {0, 1, 2, 3, 4, 5, 6, 7, 8, 9}"
    by auto
  then show ?thesis
    by (auto simp add: digit_char_def)
qed

lemma decimal_value_snoc:
  "decimal_value (s @ [c]) = 10 * decimal_value s + (of_char c - 48)"
  by (simp add: decimal_value_def)

lemma decimal_value_str_nat: "decimal_value (str_nat n) = int n"
proof (induction n rule: str_nat.induct)
  case (1 n)
  show ?case
  proof (cases "n < 10")
    case True
    then show ?thesis
      by (subst str_nat.simps) (simp add: decimal_value_def digit_char_value)
  next
    case False
    then have "decimal_value (str_nat n)
        = 10 * decimal_value (str_nat (n div 10)) + (of_char (digit_char (n mod 10)) - 48)"
      by (subst str_nat.simps) (simp add: decimal_value_snoc)
    also have "\<dots> = 10 * int (n div 10) + int (n mod 10)"
      using 1 False by (simp add: digit_char_value)
    also have "\<dots> = int n"
      by (simp add: zdiv_int zmod_int)
    finally show ?thesis .
  qed
qed

lemma decimal_value_str_int: "0 \<le> r \<Longrightarrow> decimal_value (str_int r) = r"
  by (simp add: str_int_def decimal_value_str_nat)

lemma str_int_inject:
  assumes "0 \<le> r" and "0 \<le> r'" and "str_int r' = str_int r"
  shows "r' = r"
  using assms decimal_value_str_int [of r] decimal_value_str_int [of r'] by simp

lemma start_state_None: "start_state None r = str_int r"
  by (simp add: start_state_def)

text \<open>What a start with both credentials present returns.\<close>

lemma redirect_url_configured:
  assumes "truthy (REDDIT_APP_KEY env)" and "truthy (REDDIT_APP_SECRET env)"
  shows "redirect_url env self req state0 r ds =
     (Inr (auth_url
             (praw_Reddit env
                \<lparr>client_id = REDDIT_APP_KEY env, client_secret = REDDIT_APP_SECRET env,
                 redirect_uri = host_url req @ to_path self, user_agent = USER_AGENT\<rparr>)
             [''identity'']
             (encode_oauth_state env
                [(''state'', start_state state0 r), (''to_path'', to_path self)])
             ''permanent''),
      put_request_token
        \<lparr>token_id = start_state state0 r, token_secret = start_state state0 r,
         token_state = start_state state0 r\<rparr> ds)"
  using assms by (simp add: redirect_url_def Let_def)

text \<open>When the callback goes on to the exchange.\<close>

lemma get_reaches_exchange:
  assumes "request_get req ''error'' = []"
    and "decode_oauth_state env (request_get req ''state'') = Inr st"
    and "map_of st ''state'' = Some s" and "s \<noteq> []"
    and "request_get req ''code'' \<noteq> []"
    and "get_request_token_by_id ds s = Some request_token"
  shows "get env req ds = exchange env req st (map_of st ''to_path'') (request_get req ''code'') ds"
  using assms by (simp add: get_def Let_def)

lemma on_error_datastore: "snd (on_error error state ds) = ds"
  by (simp add: on_error_def)

lemma exchange_request_tokens:
  "request_tokens (snd (exchange env req st tp code ds)) = request_tokens ds"
  by (simp add: exchange_def Let_def put_reddit_auth_def split: option.splits sum.splits)

lemma on_error_no_credential: "on_error error state ds \<noteq> (Inr (Finish (Some a) x), ds')"
  by (simp add: on_error_def)

text \<open>A successful exchange, read backwards: what must have happened.\<close>

lemma exchange_success:
  assumes "exchange env req st tp' code ds = (Inr (Finish (Some a) x), ds')"
  shows "\<exists>tp user profile.
      tp' = Some tp
    \<and> auth_authorize
        (praw_Reddit env
           \<lparr>client_id = REDDIT_APP_KEY env, client_secret = REDDIT_APP_SECRET env,
            redirect_uri = host_url req @ tp, user_agent = USER_AGENT\<rparr>) code
        = Inr (Some (refresh_token a))
    \<and> user_me
        (praw_Reddit env
           \<lparr>client_id = REDDIT_APP_KEY env, client_secret = REDDIT_APP_SECRET env,
            redirect_uri = host_url req @ tp, user_agent = USER_AGENT\<rparr>)
        = Inr user
    \<and> getattrs user attribute_list [] = Inr profile
    \<and> a = \<lparr>auth_id = str_of user, refresh_token = refresh_token a,
            user_json = json_dumps env profile\<rparr>
    \<and> x = StateDict st
    \<and> ds' = put_reddit_auth a ds"
  using assms
  by (auto simp add: exchange_def Let_def split: option.splits sum.splits)

lemma get_success:
  assumes "get env req ds = (Inr (Finish (Some a) x), ds')"
  shows "\<exists>st tp user profile.
      decode_oauth_state env (request_get req ''state'') = Inr st
    \<and> map_of st ''to_path'' = Some tp
    \<and> auth_authorize
        (praw_Reddit env
           \<lparr>client_id = REDDIT_APP_KEY env, client_secret = REDDIT_APP_SECRET env,
            redirect_uri = host_url req @ tp, user_agent = USER_AGENT\<rparr>)
        (request_get req ''code'')
        = Inr (Some (refresh_token a))
    \<and> user_me
        (praw_Reddit env
           \<lparr>client_id = REDDIT_APP_KEY env, client_secret = REDDIT_APP_SECRET env,
            redirect_uri = host_url req @ tp, user_agent = USER_AGENT\<rparr>)
        = Inr user
    \<and> getattrs user attribute_list [] = Inr profile
    \<and> a = \<lparr>auth_id = str_of user, refresh_token = refresh_token a,
            user_json = json_dumps env profile\<rparr>
    \<and> x = StateDict st
    \<and> ds' = put_reddit_auth a ds"
proof -
  obtain st where st: "decode_oauth_state env (request_get req ''state'') = Inr st"
    using assms by (cases "decode_oauth_state env (request_get req ''state'')")
      (simp_all add: get_def Let_def)
  have ex: "exchange env req st (map_of st ''to_path'') (request_get req ''code'') ds
      = (Inr (Finish (Some a) x), ds')"
    using assms st
    by (simp add: get_def Let_def on_error_no_credential split: option.splits if_splits)
  from exchange_success [OF ex] st show ?thesis
    by blast
qed

lemma getattrs_whitelist:
  assumes "map_of (attributes user) ''name'' = Some v1"
    and "map_of (attributes user) ''comment_karma'' = Some v2"
    and "map_of (attributes user) ''created_utc'' = Some v3"
    and "map_of (attributes user) ''id'' = Some v4"
    and "map_of (attributes user) ''link_karma'' = Some v5"
    and "map_of (attributes user) ''icon_img'' = Some v6"
  shows "getattrs user attribute_list [] =
     Inr [(''name'', v1), (''comment_karma'', v2), (''created_utc'', v3), (''id'', v4),
          (''link_karma'', v5), (''icon_img'', v6)]"
  using assms by (simp add: attribute_list_def getattr_def)

lemma test_decode_blob:
  "test_decode ''123456|/cb'' = Inr [(''state'', ''123456''), (''to_path'', ''/cb'')]"
  by (simp add: test_decode_def)

lemma alice_profile:
  "getattrs alice attribute_list [] =
     Inr [(''name'', PyStr ''alice''), (''comment_karma'', PyInt 10),
          (''created_utc'', PyFloat 1500000000), (''id'', PyStr ''t2a''),
          (''link_karma'', PyInt 3), (''icon_img'', PyStr ''a.png'')]"
  by (simp add: attribute_list_def getattr_def alice_def)

lemma alice_str_of: "str_of alice = ''alice''"
  by (simp add: alice_def)

lemma test_env_configured:
  "truthy (REDDIT_APP_KEY test_env)" "truthy (REDDIT_APP_SECRET test_env)"
  by (simp_all add: test_env_def)

lemma callback_req_params:
  "request_get (callback_req code) ''error'' = []"
  "request_get (callback_req code) ''state'' = ''123456|/cb''"
  "request_get (callback_req code) ''code'' = code"
  by (simp_all add: request_get_def callback_req_def)

lemma pending_ds_token:
  "get_request_token_by_id pending_ds ''123456''
     = Some \<lparr>token_id = ''123456'', token_secret = ''123456'', token_state = ''123456''\<rparr>"
  by (simp add: get_request_token_by_id_def pending_ds_def put_request_token_def empty_ds_def)

lemma test_callback_completes:
  assumes "get_request_token_by_id ds ''123456'' = Some request_token"
    and "code = ''abc123'' \<and> rt = ''rt1'' \<or> code = ''xyz789'' \<and> rt = ''rt2''"
  shows "get test_env (callback_req code) ds
     = (Inr (Finish
          (Some \<lparr>auth_id = ''alice'', refresh_token = rt,
                 user_json = ''name=alice;comment_karma;created_utc;id=t2a;link_karma;icon_img=a.png;''\<rparr>)
          (StateDict [(''state'', ''123456''), (''to_path'', ''/cb'')])),
        put_reddit_auth
          \<lparr>auth_id = ''alice'', refresh_token = rt,
           user_json = ''name=alice;comment_karma;created_utc;id=t2a;link_karma;icon_img=a.png;''\<rparr>
          ds)"
proof -
  have d: "decode_oauth_state test_env (request_get (callback_req code) ''state'')
      = Inr [(''state'', ''123456''), (''to_path'', ''/cb'')]"
    by (simp add: callback_req_params test_env_def test_decode_blob)
  have c: "request_get (callback_req code) ''code'' \<noteq> []"
    using assms(2) by (auto simp add: callback_req_params)
  have "get test_env (callback_req code) ds
      = exchange test_env (callback_req code) [(''state'', ''123456''), (''to_path'', ''/cb'')]
          (Some ''/cb'') code ds"
    using get_reaches_exchange [OF callback_req_params(1) d _ _ c assms(1)]
    by (simp add: callback_req_params)
  also have "\<dots> = (Inr (Finish
          (Some \<lparr>auth_id = ''alice'', refresh_token = rt,
                 user_json = ''name=alice;comment_karma;created_utc;id=t2a;link_karma;icon_img=a.png;''\<rparr>)
          (StateDict [(''state'', ''123456''), (''to_path'', ''/cb'')])),
        put_reddit_auth
          \<lparr>auth_id = ''alice'', refresh_token = rt,
           user_json = ''name=alice;comment_karma;created_utc;id=t2a;link_karma;icon_img=a.png;''\<rparr>
          ds)"
    using assms(2)
    by (auto simp add: exchange_def test_env_def test_reddit_def alice_profile alice_str_of
        test_json_dumps_def Let_def)
  finally show ?thesis .
qed

subsection \<open>The claims\<close>

text \<open>
  C1. A callback that passes the checks of line 96 and whose state token has no
  request token in the datastore reaches line 109. Building the message there
  evaluates \<open>request_token_key\<close>, a name the module never binds, so the handler ends
  with a \<open>NameError\<close> and not with the \<open>HTTPBadRequest\<close> the line means to raise. The
  datastore is left as it was.
\<close>

theorem callback_unknown_token_name_error:
  assumes "request_get req ''error'' = []"
    and "decode_oauth_state env (request_get req ''state'') = Inr st"
    and "map_of st ''state'' = Some s" and "s \<noteq> []"
    and "request_get req ''code'' \<noteq> []"
    and "get_request_token_by_id ds s = None"
  shows "get env req ds = (Inl (NameError ''request_token_key''), ds)"
  using assms by (simp add: get_def Let_def)

text \<open>The failing run: state token 123456, code abc123, an empty datastore.\<close>

theorem callback_unknown_token_name_error_witness:
  "request_get (callback_req ''abc123'') ''error'' = []
   \<and> decode_oauth_state test_env (request_get (callback_req ''abc123'') ''state'')
       = Inr [(''state'', ''123456''), (''to_path'', ''/cb'')]
   \<and> request_get (callback_req ''abc123'') ''code'' = ''abc123''
   \<and> get_request_token_by_id empty_ds ''123456'' = None
   \<and> get test_env (callback_req ''abc123'') empty_ds
       = (Inl (NameError ''request_token_key''), empty_ds)"
proof -
  have e: "request_get (callback_req ''abc123'') ''error'' = []"
    by (simp add: request_get_def callback_req_def)
  have d: "decode_oauth_state test_env (request_get (callback_req ''abc123'') ''state'')
       = Inr [(''state'', ''123456''), (''to_path'', ''/cb'')]"
    by (simp add: request_get_def callback_req_def test_env_def test_decode_blob)
  have c: "request_get (callback_req ''abc123'') ''code'' = ''abc123''"
    by (simp add: request_get_def callback_req_def)
  have t: "get_request_token_by_id empty_ds ''123456'' = None"
    by (simp add: get_request_token_by_id_def empty_ds_def)
  have "get test_env (callback_req ''abc123'') empty_ds
       = (Inl (NameError ''request_token_key''), empty_ds)"
    using callback_unknown_token_name_error [OF e d _ _ _ t] c by simp
  with e d c t show ?thesis by simp
qed

text \<open>
  C2. The branch of line 96 decides between decline and error by
  \<open>error in ('access_denied')\<close>, a substring test on the string \<open>'access_denied'\<close>.
  A callback that carries no \<open>error\<close> and lacks the state token or the \<open>code\<close> passes
  that test with the empty string: the handler calls \<open>finish(None, state=state)\<close>, the
  decline path, and raises no \<open>HTTPBadRequest\<close>.
\<close>

theorem callback_missing_code_takes_decline_path:
  assumes "request_get req ''error'' = []"
    and "decode_oauth_state env (request_get req ''state'') = Inr st"
    and "\<not> truthy (map_of st ''state'') \<or> request_get req ''code'' = []"
  shows "get env req ds = (Inr (Finish None (StateToken (map_of st ''state''))), ds)"
  using assms by (auto simp add: get_def on_error_def Let_def split: option.splits)

text \<open>The failing run: state token 123456 with its request token stored, no code.\<close>

theorem callback_missing_code_takes_decline_path_witness:
  "request_get no_code_req ''error'' = []
   \<and> decode_oauth_state test_env (request_get no_code_req ''state'')
       = Inr [(''state'', ''123456''), (''to_path'', ''/cb'')]
   \<and> request_get no_code_req ''code'' = []
   \<and> get test_env no_code_req pending_ds
       = (Inr (Finish None (StateToken (Some ''123456''))), pending_ds)"
proof -
  have e: "request_get no_code_req ''error'' = []"
    by (simp add: request_get_def no_code_req_def)
  have d: "decode_oauth_state test_env (request_get no_code_req ''state'')
       = Inr [(''state'', ''123456''), (''to_path'', ''/cb'')]"
    by (simp add: request_get_def no_code_req_def test_env_def test_decode_blob)
  have c: "request_get no_code_req ''code'' = []"
    by (simp add: request_get_def no_code_req_def)
  have "get test_env no_code_req pending_ds
       = (Inr (Finish None (StateToken (Some ''123456''))), pending_ds)"
    using callback_missing_code_takes_decline_path [OF e d, of pending_ds] c by simp
  with e d c show ?thesis by simp
qed

text \<open>
  C3, as the code has it. A callback with \<open>error=access_denied\<close>, whether or not
  \<open>code\<close> is present: line 92 decodes the state parameter first, and an exception of
  the decoder is the handler's result; when the blob decodes, the handler calls
  \<open>finish\<close> with no credential and returns. Either way the datastore is left as it
  was, so no credential is written.
\<close>

theorem callback_access_denied_finishes_without_credential:
  assumes "request_get req ''error'' = ''access_denied''"
  shows "case decode_oauth_state env (request_get req ''state'') of
           Inl e \<Rightarrow> get env req ds = (Inl e, ds)
         | Inr st \<Rightarrow> (\<exists>x. get env req ds = (Inr (Finish None x), ds))"
  using assms
  by (simp add: get_def on_error_def Let_def split: sum.splits option.splits)

theorem callback_access_denied_finishes_without_credential_witness:
  "request_get denied_req ''error'' = ''access_denied''
   \<and> decode_oauth_state test_env (request_get denied_req ''state'')
       = Inr [(''state'', ''123456''), (''to_path'', ''/cb'')]
   \<and> (\<exists>x. get test_env denied_req pending_ds = (Inr (Finish None x), pending_ds))"
proof -
  have e: "request_get denied_req ''error'' = ''access_denied''"
    by (simp add: request_get_def denied_req_def)
  have d: "decode_oauth_state test_env (request_get denied_req ''state'')
       = Inr [(''state'', ''123456''), (''to_path'', ''/cb'')]"
    by (simp add: request_get_def denied_req_def test_env_def test_decode_blob)
  show ?thesis
    using callback_access_denied_finishes_without_credential [OF e, of test_env pending_ds] e d
    by simp
qed

text \<open>
  C3 as stated fails. On the declined callback whose blob decodes to state token
  123456 and path /cb, line 99 hands \<open>finish\<close> the token alone, not the decoded dict
  that line 135 passes on the success path, so the path is not passed on. On the
  declined callback whose state parameter the decoder rejects, the handler ends with
  the decoder's exception and \<open>finish\<close> is not called.
\<close>

theorem access_denied_state_counterexample:
  "get test_env denied_req pending_ds
     = (Inr (Finish None (StateToken (Some ''123456''))), pending_ds)
   \<and> get test_env denied_req pending_ds
     \<noteq> (Inr (Finish None (StateDict [(''state'', ''123456''), (''to_path'', ''/cb'')])),
        pending_ds)
   \<and> get test_env garbled_denied_req pending_ds
     = (Inl (HTTPBadRequest ''Invalid format for state parameter: garbled''), pending_ds)"
  by (simp add: get_def on_error_def Let_def request_get_def denied_req_def
      garbled_denied_req_def test_env_def test_decode_blob)
    (simp add: test_decode_def)

text \<open>
  C4, as the code has it. The callback only reads the request token: whatever a
  callback does, the request tokens in the datastore afterwards are those before it.
  The token a callback was authenticated with therefore stays in the store, and a later
  callback that presents it passes the lookup again.
\<close>

theorem callback_keeps_request_tokens:
  "request_tokens (snd (get env req ds)) = request_tokens ds"
  by (simp add: get_def Let_def on_error_datastore exchange_request_tokens
      split: sum.splits option.splits)

text \<open>After the authenticated callback with code abc123 the request token is still stored.\<close>

theorem callback_keeps_request_tokens_witness:
  "request_tokens (snd (get test_env (callback_req ''abc123'') pending_ds)) ''123456''
     = Some \<lparr>token_id = ''123456'', token_secret = ''123456'', token_state = ''123456''\<rparr>"
  using callback_keeps_request_tokens [of test_env "callback_req ''abc123''" pending_ds]
  by (simp add: pending_ds_def put_request_token_def empty_ds_def)

text \<open>
  C4 as stated fails: with the request token 123456 stored once, a callback with code
  abc123 is authenticated and stores a credential, and a second, different callback
  (code xyz789) presenting the same token is authenticated as well.
\<close>

theorem request_token_reused_counterexample:
  "get test_env (callback_req ''abc123'') pending_ds
     = (Inr (Finish
          (Some \<lparr>auth_id = ''alice'', refresh_token = ''rt1'',
                 user_json = ''name=alice;comment_karma;created_utc;id=t2a;link_karma;icon_img=a.png;''\<rparr>)
          (StateDict [(''state'', ''123456''), (''to_path'', ''/cb'')])),
        put_reddit_auth
          \<lparr>auth_id = ''alice'', refresh_token = ''rt1'',
           user_json = ''name=alice;comment_karma;created_utc;id=t2a;link_karma;icon_img=a.png;''\<rparr>
          pending_ds)
   \<and> fst (get test_env (callback_req ''xyz789'')
        (snd (get test_env (callback_req ''abc123'') pending_ds)))
     = Inr (Finish
          (Some \<lparr>auth_id = ''alice'', refresh_token = ''rt2'',
                 user_json = ''name=alice;comment_karma;created_utc;id=t2a;link_karma;icon_img=a.png;''\<rparr>)
          (StateDict [(''state'', ''123456''), (''to_path'', ''/cb'')]))"
  by (simp add: get_def test_env_def callback_req_def request_get_def
      get_request_token_by_id_def test_decode_blob pending_ds_def put_request_token_def
      empty_ds_def exchange_def test_reddit_def alice_profile put_reddit_auth_def
      test_json_dumps_def alice_str_of Let_def)

text \<open>
  C5. With both application credentials present, a start returns the authorization
  URL, built with the state blob that carries the state token. Whenever a start returns
  a URL, the datastore it leaves holds the request token under that state token: the
  token is stored by the time the URL is returned.
\<close>

theorem start_stores_token_before_url:
  "(truthy (REDDIT_APP_KEY env) \<and> truthy (REDDIT_APP_SECRET env) \<longrightarrow>
      fst (redirect_url env self req state0 r ds)
        = Inr (auth_url
            (praw_Reddit env
               \<lparr>client_id = REDDIT_APP_KEY env, client_secret = REDDIT_APP_SECRET env,
                redirect_uri = host_url req @ to_path self, user_agent = USER_AGENT\<rparr>)
            [''identity'']
            (encode_oauth_state env
               [(''state'', start_state state0 r), (''to_path'', to_path self)])
            ''permanent''))
   \<and> (fst (redirect_url env self req state0 r ds) = Inr url \<longrightarrow>
        get_request_token_by_id (snd (redirect_url env self req state0 r ds))
          (start_state state0 r)
        = Some \<lparr>token_id = start_state state0 r, token_secret = start_state state0 r,
                token_state = start_state state0 r\<rparr>)"
proof (cases "truthy (REDDIT_APP_KEY env) \<and> truthy (REDDIT_APP_SECRET env)")
  case True
  then show ?thesis
    by (simp add: redirect_url_configured put_request_token_def get_request_token_by_id_def)
next
  case False
  then show ?thesis
    by (simp add: redirect_url_def Let_def)
qed

theorem start_stores_token_before_url_witness:
  "truthy (REDDIT_APP_KEY test_env) \<and> truthy (REDDIT_APP_SECRET test_env)
   \<and> fst (redirect_url test_env test_handler start_req None 123456 empty_ds)
       = Inr (''https://www.reddit.com/api/v1/authorize?scope=identity''
              @ ''&state=123456|/cb&duration=permanent''
              @ ''&redirect_uri=https://app.example/cb'')
   \<and> get_request_token_by_id
         (snd (redirect_url test_env test_handler start_req None 123456 empty_ds)) ''123456''
       = Some \<lparr>token_id = ''123456'', token_secret = ''123456'', token_state = ''123456''\<rparr>"
proof -
  have s: "start_state None 123456 = ''123456''"
    by (simp add: start_state_def str_int_def str_nat.simps digit_char_def)
  have u: "auth_url
       (praw_Reddit test_env
          \<lparr>client_id = REDDIT_APP_KEY test_env, client_secret = REDDIT_APP_SECRET test_env,
           redirect_uri = host_url start_req @ to_path test_handler,
           user_agent = USER_AGENT\<rparr>)
       [''identity'']
       (encode_oauth_state test_env [(''state'', ''123456''), (''to_path'', to_path test_handler)])
       ''permanent''
     = ''https://www.reddit.com/api/v1/authorize?scope=identity''
       @ ''&state=123456|/cb&duration=permanent'' @ ''&redirect_uri=https://app.example/cb''"
    by (simp add: test_env_def test_reddit_def test_handler_def start_req_def test_encode_def)
  show ?thesis
    using start_stores_token_before_url [of test_env test_handler start_req None 123456 empty_ds
        "''https://www.reddit.com/api/v1/authorize?scope=identity''
         @ ''&state=123456|/cb&duration=permanent'' @ ''&redirect_uri=https://app.example/cb''"]
    unfolding s u by (simp add: test_env_configured)
qed

text \<open>
  C6. Once the callback has found the request token, an exception raised by the token
  exchange (\<open>reddit.auth.authorize\<close>) or by the profile fetch (\<open>reddit.user.me\<close>) is the
  handler's result, and the datastore is left as it was: no credential is stored.
\<close>

theorem callback_upstream_failure_stores_nothing:
  assumes "request_get req ''error'' = []"
    and "decode_oauth_state env (request_get req ''state'') = Inr st"
    and "map_of st ''state'' = Some s" and "s \<noteq> []"
    and "request_get req ''code'' \<noteq> []"
    and "get_request_token_by_id ds s = Some request_token"
    and "map_of st ''to_path'' = Some tp"
    and "reddit = praw_Reddit env
           \<lparr>client_id = REDDIT_APP_KEY env, client_secret = REDDIT_APP_SECRET env,
            redirect_uri = host_url req @ tp, user_agent = USER_AGENT\<rparr>"
    and "auth_authorize reddit (request_get req ''code'') = Inl e
         \<or> (auth_authorize reddit (request_get req ''code'') = Inr rt \<and> user_me reddit = Inl e)"
  shows "get env req ds = (Inl e, ds)"
proof -
  have "get env req ds = exchange env req st (Some tp) (request_get req ''code'') ds"
    using get_reaches_exchange [OF assms(1-6)] assms(7) by simp
  also have "\<dots> = (Inl e, ds)"
    using assms(8,9) by (auto simp add: exchange_def Let_def)
  finally show ?thesis .
qed

theorem callback_upstream_failure_stores_nothing_witness:
  "get (test_env\<lparr>praw_Reddit := failing_reddit\<rparr>) (callback_req ''abc123'') pending_ds
     = (Inl (PrawError ''invalid_grant''), pending_ds)"
proof -
  let ?env = "test_env\<lparr>praw_Reddit := failing_reddit\<rparr>"
  have d: "decode_oauth_state ?env (request_get (callback_req ''abc123'') ''state'')
      = Inr [(''state'', ''123456''), (''to_path'', ''/cb'')]"
    by (simp add: callback_req_params test_env_def test_decode_blob)
  have a: "auth_authorize
       (praw_Reddit ?env
          \<lparr>client_id = REDDIT_APP_KEY ?env, client_secret = REDDIT_APP_SECRET ?env,
           redirect_uri = host_url (callback_req ''abc123'') @ ''/cb'',
           user_agent = USER_AGENT\<rparr>)
       (request_get (callback_req ''abc123'') ''code'') = Inl (PrawError ''invalid_grant'')"
    by (simp add: failing_reddit_def)
  show ?thesis
    by (rule callback_upstream_failure_stores_nothing
        [OF callback_req_params(1) d _ _ _ pending_ds_token _ refl disjI1 [OF a]])
      (simp_all add: callback_req_params)
qed

text \<open>
  C7. Two callbacks that complete for the same user id: after the second, the
  credential stored under that id is the one the second built, holding the refresh
  token the second exchange returned and the serialised profile the second fetch gave;
  there is one entry under the id, and no other entry was added or changed.
\<close>

theorem two_completions_one_credential:
  assumes "get env1 req1 ds0 = (Inr (Finish (Some a1) x1), ds1)"
    and "get env2 req2 ds1 = (Inr (Finish (Some a2) x2), ds2)"
    and "auth_id a1 = auth_id a2"
  shows "reddit_auths ds2 (auth_id a2) = Some a2
    \<and> dom (reddit_auths ds2) = insert (auth_id a2) (dom (reddit_auths ds0))
    \<and> reddit_auths ds2 = (reddit_auths ds0)(auth_id a2 \<mapsto> a2)
    \<and> (\<exists>st tp user profile.
          decode_oauth_state env2 (request_get req2 ''state'') = Inr st
        \<and> map_of st ''to_path'' = Some tp
        \<and> auth_authorize
            (praw_Reddit env2
               \<lparr>client_id = REDDIT_APP_KEY env2, client_secret = REDDIT_APP_SECRET env2,
                redirect_uri = host_url req2 @ tp, user_agent = USER_AGENT\<rparr>)
            (request_get req2 ''code'')
            = Inr (Some (refresh_token a2))
        \<and> user_me
            (praw_Reddit env2
               \<lparr>client_id = REDDIT_APP_KEY env2, client_secret = REDDIT_APP_SECRET env2,
                redirect_uri = host_url req2 @ tp, user_agent = USER_AGENT\<rparr>)
            = Inr user
        \<and> getattrs user attribute_list [] = Inr profile
        \<and> auth_id a2 = str_of user
        \<and> user_json a2 = json_dumps env2 profile)"
proof -
  from get_success [OF assms(1)] have ds1: "ds1 = put_reddit_auth a1 ds0"
    by blast
  from get_success [OF assms(2)] obtain st tp user profile where
    second: "decode_oauth_state env2 (request_get req2 ''state'') = Inr st"
      "map_of st ''to_path'' = Some tp"
      "auth_authorize
         (praw_Reddit env2
            \<lparr>client_id = REDDIT_APP_KEY env2, client_secret = REDDIT_APP_SECRET env2,
             redirect_uri = host_url req2 @ tp, user_agent = USER_AGENT\<rparr>)
         (request_get req2 ''code'')
         = Inr (Some (refresh_token a2))"
      "user_me
         (praw_Reddit env2
            \<lparr>client_id = REDDIT_APP_KEY env2, client_secret = REDDIT_APP_SECRET env2,
             redirect_uri = host_url req2 @ tp, user_agent = USER_AGENT\<rparr>)
         = Inr user"
      "getattrs user attribute_list [] = Inr profile"
      "a2 = \<lparr>auth_id = str_of user, refresh_token = refresh_token a2,
             user_json = json_dumps env2 profile\<rparr>"
    and ds2: "ds2 = put_reddit_auth a2 ds1"
    by blast
  have id: "auth_id a2 = str_of user" and js: "user_json a2 = json_dumps env2 profile"
    using second(6) by (metis RedditAuth.select_convs(1), metis RedditAuth.select_convs(3))
  have store: "reddit_auths ds2 = (reddit_auths ds0)(auth_id a2 \<mapsto> a2)"
    using ds1 ds2 assms(3) by (simp add: put_reddit_auth_def)
  then have "reddit_auths ds2 (auth_id a2) = Some a2"
    and "dom (reddit_auths ds2) = insert (auth_id a2) (dom (reddit_auths ds0))"
    by simp_all
  with store second(1-5) id js show ?thesis
    by blast
qed

text \<open>Two callbacks for alice on the same request token, codes abc123 and xyz789.\<close>

theorem two_completions_one_credential_witness:
  "get test_env (callback_req ''abc123'') pending_ds
     = (Inr (Finish
          (Some \<lparr>auth_id = ''alice'', refresh_token = ''rt1'',
                 user_json = ''name=alice;comment_karma;created_utc;id=t2a;link_karma;icon_img=a.png;''\<rparr>)
          (StateDict [(''state'', ''123456''), (''to_path'', ''/cb'')])),
        put_reddit_auth
          \<lparr>auth_id = ''alice'', refresh_token = ''rt1'',
           user_json = ''name=alice;comment_karma;created_utc;id=t2a;link_karma;icon_img=a.png;''\<rparr>
          pending_ds)
   \<and> reddit_auths
        (snd (get test_env (callback_req ''xyz789'')
           (snd (get test_env (callback_req ''abc123'') pending_ds))))
      = [''alice'' \<mapsto>
           \<lparr>auth_id = ''alice'', refresh_token = ''rt2'',
            user_json = ''name=alice;comment_karma;created_utc;id=t2a;link_karma;icon_img=a.png;''\<rparr>]"
proof -
  let ?js = "''name=alice;comment_karma;created_utc;id=t2a;link_karma;icon_img=a.png;''"
  let ?a1 = "\<lparr>auth_id = ''alice'', refresh_token = ''rt1'', user_json = ?js\<rparr>"
  let ?a2 = "\<lparr>auth_id = ''alice'', refresh_token = ''rt2'', user_json = ?js\<rparr>"
  have run1: "get test_env (callback_req ''abc123'') pending_ds
      = (Inr (Finish (Some ?a1) (StateDict [(''state'', ''123456''), (''to_path'', ''/cb'')])),
         put_reddit_auth ?a1 pending_ds)"
    by (rule test_callback_completes [OF pending_ds_token]) simp
  have kept: "get_request_token_by_id (put_reddit_auth ?a1 pending_ds) ''123456''
      = Some \<lparr>token_id = ''123456'', token_secret = ''123456'', token_state = ''123456''\<rparr>"
    using pending_ds_token by (simp add: get_request_token_by_id_def put_reddit_auth_def)
  have run2: "get test_env (callback_req ''xyz789'') (put_reddit_auth ?a1 pending_ds)
      = (Inr (Finish (Some ?a2) (StateDict [(''state'', ''123456''), (''to_path'', ''/cb'')])),
         put_reddit_auth ?a2 (put_reddit_auth ?a1 pending_ds))"
    by (rule test_callback_completes [OF kept]) simp
  have "reddit_auths (put_reddit_auth ?a2 (put_reddit_auth ?a1 pending_ds))
      = (reddit_auths pending_ds)(auth_id ?a2 \<mapsto> ?a2)"
    using two_completions_one_credential [OF run1 run2] by simp
  then show ?thesis
    by (simp add: run1 run2) (simp add: pending_ds_def put_request_token_def empty_ds_def)
qed

text \<open>
  C9, as the code has it. The assertion is line 64, inside \<open>redirect_url\<close>: every
  start made while a credential is \<open>None\<close> or empty ends with an \<open>AssertionError\<close>,
  whatever the praw constructor would return, and leaves the datastore as it was, so
  it fails before the client is built and before a request token is stored.
\<close>

theorem start_without_credentials_asserts:
  assumes "\<not> truthy (REDDIT_APP_KEY env) \<or> \<not> truthy (REDDIT_APP_SECRET env)"
  shows "redirect_url (env\<lparr>praw_Reddit := p\<rparr>) self req state0 r ds = (Inl AssertionError, ds)"
  using assms by (auto simp add: redirect_url_def Let_def)

theorem start_without_credentials_asserts_witness:
  "\<not> truthy (REDDIT_APP_SECRET (test_env\<lparr>REDDIT_APP_SECRET := Some []\<rparr>))
   \<and> redirect_url (test_env\<lparr>REDDIT_APP_SECRET := Some [], praw_Reddit := failing_reddit\<rparr>)
        test_handler start_req None 123456 pending_ds
       = (Inl AssertionError, pending_ds)"
proof -
  have m: "\<not> truthy (REDDIT_APP_SECRET (test_env\<lparr>REDDIT_APP_SECRET := Some []\<rparr>))"
    by simp
  show ?thesis
    using start_without_credentials_asserts [OF disjI2 [OF m], of failing_reddit test_handler
        start_req None 123456 pending_ds] m
    by simp
qed

text \<open>
  C9 as stated fails: with both credential files missing the module import goes
  through, binding both constants to \<open>None\<close>; nothing is asserted at that point. The
  assertion is raised when a start request is handled.
\<close>

theorem import_without_credentials_counterexample:
  "load_module missing_files = Inr (None, None)
   \<and> redirect_url (test_env\<lparr>REDDIT_APP_KEY := None, REDDIT_APP_SECRET := None\<rparr>)
        test_handler start_req None 123456 empty_ds
       = (Inl AssertionError, empty_ds)"
  by (simp add: load_module_def missing_files_def redirect_url_def Let_def)

text \<open>
  C10. End to end. A start without a state, with both credentials present and a number
  \<open>r\<close> drawn from 100000..999999, uses \<open>str(r)\<close> as state token, six decimal digits;
  it stores the request token under it and returns the URL that praw builds for scope
  \<open>identity\<close>, the encoded state blob and duration \<open>permanent\<close>. A callback that brings
  that blob back (the decoder returning what was encoded) with code abc123, where the
  provider answers with refresh token rt1 and a user that prints as alice, has name
  alice and carries the other five attributes, stores and hands to \<open>finish\<close> the
  credential with id alice, refresh token rt1 and the serialised profile, whose keys
  are the six attributes and whose name is alice. The token is the decimal numeral of
  the number drawn: read back as a number it is \<open>r\<close>, and no other draw in the range
  gives the same token.
\<close>

theorem start_then_callback_end_to_end:
  assumes "truthy (REDDIT_APP_KEY env)" and "truthy (REDDIT_APP_SECRET env)"
    and "100000 \<le> r" and "r \<le> 999999"
    and "blob = [(''state'', str_int r), (''to_path'', to_path self)]"
    and "decode_oauth_state env (encode_oauth_state env blob) = Inr blob"
    and "request_get req2 ''error'' = []"
    and "request_get req2 ''state'' = encode_oauth_state env blob"
    and "request_get req2 ''code'' = ''abc123''"
    and "reddit2 = praw_Reddit env
           \<lparr>client_id = REDDIT_APP_KEY env, client_secret = REDDIT_APP_SECRET env,
            redirect_uri = host_url req2 @ to_path self, user_agent = USER_AGENT\<rparr>"
    and "auth_authorize reddit2 ''abc123'' = Inr (Some ''rt1'')"
    and "user_me reddit2 = Inr user"
    and "str_of user = ''alice''"
    and "map_of (attributes user) ''name'' = Some (PyStr ''alice'')"
    and "map_of (attributes user) ''comment_karma'' = Some v2"
    and "map_of (attributes user) ''created_utc'' = Some v3"
    and "map_of (attributes user) ''id'' = Some v4"
    and "map_of (attributes user) ''link_karma'' = Some v5"
    and "map_of (attributes user) ''icon_img'' = Some v6"
    and "profile = [(''name'', PyStr ''alice''), (''comment_karma'', v2), (''created_utc'', v3),
           (''id'', v4), (''link_karma'', v5), (''icon_img'', v6)]"
    and "cred = \<lparr>auth_id = ''alice'', refresh_token = ''rt1'',
                  user_json = json_dumps env profile\<rparr>"
    and "ds1 = snd (redirect_url env self req1 None r ds0)"
  shows "six_digits (str_int r)
    \<and> decimal_value (str_int r) = r
    \<and> (\<forall>r'. 100000 \<le> r' \<and> r' \<le> 999999 \<and> str_int r' = str_int r \<longrightarrow> r' = r)
    \<and> fst (redirect_url env self req1 None r ds0)
        = Inr (auth_url
            (praw_Reddit env
               \<lparr>client_id = REDDIT_APP_KEY env, client_secret = REDDIT_APP_SECRET env,
                redirect_uri = host_url req1 @ to_path self, user_agent = USER_AGENT\<rparr>)
            [''identity''] (encode_oauth_state env blob) ''permanent'')
    \<and> get_request_token_by_id ds1 (str_int r)
        = Some \<lparr>token_id = str_int r, token_secret = str_int r, token_state = str_int r\<rparr>
    \<and> get env req2 ds1 = (Inr (Finish (Some cred) (StateDict blob)), put_reddit_auth cred ds1)
    \<and> reddit_auths (put_reddit_auth cred ds1) ''alice'' = Some cred
    \<and> map_of profile ''name'' = Some (PyStr ''alice'')
    \<and> map fst profile
        = [''name'', ''comment_karma'', ''created_utc'', ''id'', ''link_karma'', ''icon_img'']"
proof -
  have six: "six_digits (str_int r)"
    using assms(3,4) by (rule str_int_six_digits)
  then have nonempty: "str_int r \<noteq> []"
    by (auto simp add: six_digits_def)
  have start: "redirect_url env self req1 None r ds0 =
     (Inr (auth_url
             (praw_Reddit env
                \<lparr>client_id = REDDIT_APP_KEY env, client_secret = REDDIT_APP_SECRET env,
                 redirect_uri = host_url req1 @ to_path self, user_agent = USER_AGENT\<rparr>)
             [''identity''] (encode_oauth_state env blob) ''permanent''),
      put_request_token
        \<lparr>token_id = str_int r, token_secret = str_int r, token_state = str_int r\<rparr> ds0)"
    using redirect_url_configured [OF assms(1,2), of self req1 None r ds0]
    by (simp add: start_state_None assms(5))
  have ds1: "ds1 = put_request_token
        \<lparr>token_id = str_int r, token_secret = str_int r, token_state = str_int r\<rparr> ds0"
    using start assms(22) by simp
  have token: "get_request_token_by_id ds1 (str_int r)
      = Some \<lparr>token_id = str_int r, token_secret = str_int r, token_state = str_int r\<rparr>"
    by (simp add: ds1 get_request_token_by_id_def put_request_token_def)
  have decoded: "decode_oauth_state env (request_get req2 ''state'') = Inr blob"
    using assms(6,8) by simp
  have st: "map_of blob ''state'' = Some (str_int r)"
    and tp: "map_of blob ''to_path'' = Some (to_path self)"
    by (simp_all add: assms(5))
  have code: "request_get req2 ''code'' \<noteq> []"
    by (simp add: assms(9))
  have prof: "getattrs user attribute_list [] = Inr profile"
    unfolding assms(20) by (rule getattrs_whitelist [OF assms(14-19)])
  have "get env req2 ds1 = exchange env req2 blob (Some (to_path self)) ''abc123'' ds1"
    using get_reaches_exchange [OF assms(7) decoded st nonempty code token] tp assms(9)
    by simp
  also have "\<dots> = (Inr (Finish (Some cred) (StateDict blob)), put_reddit_auth cred ds1)"
    using assms(11,12) prof
    by (simp add: exchange_def Let_def assms(10) [symmetric] assms(13) assms(21))
  finally have callback: "get env req2 ds1
      = (Inr (Finish (Some cred) (StateDict blob)), put_reddit_auth cred ds1)" .
  have stored: "reddit_auths (put_reddit_auth cred ds1) ''alice'' = Some cred"
    by (simp add: put_reddit_auth_def assms(21))
  have name: "map_of profile ''name'' = Some (PyStr ''alice'')"
    and keys: "map fst profile
        = [''name'', ''comment_karma'', ''created_utc'', ''id'', ''link_karma'', ''icon_img'']"
    by (simp_all add: assms(20))
  have numeral: "decimal_value (str_int r) = r"
    using assms(3) by (simp add: decimal_value_str_int)
  have unique: "\<forall>r'. 100000 \<le> r' \<and> r' \<le> 999999 \<and> str_int r' = str_int r \<longrightarrow> r' = r"
    using assms(3) by (auto intro: str_int_inject)
  from six numeral unique start token callback stored name keys show ?thesis
    by simp
qed

text \<open>The run with the stand-ins: the number drawn is 123456.\<close>

theorem start_then_callback_end_to_end_witness:
  "six_digits (str_int 123456)
   \<and> str_int 123456 = ''123456''
   \<and> decimal_value (str_int 123456) = 123456
   \<and> fst (redirect_url test_env test_handler start_req None 123456 empty_ds)
       = Inr (''https://www.reddit.com/api/v1/authorize?scope=identity''
              @ ''&state=123456|/cb&duration=permanent''
              @ ''&redirect_uri=https://app.example/cb'')
   \<and> get test_env (callback_req ''abc123'')
         (snd (redirect_url test_env test_handler start_req None 123456 empty_ds))
       = (Inr (Finish
            (Some \<lparr>auth_id = ''alice'', refresh_token = ''rt1'',
                   user_json = ''name=alice;comment_karma;created_utc;id=t2a;link_karma;icon_img=a.png;''\<rparr>)
            (StateDict [(''state'', ''123456''), (''to_path'', ''/cb'')])),
          put_reddit_auth
            \<lparr>auth_id = ''alice'', refresh_token = ''rt1'',
             user_json = ''name=alice;comment_karma;created_utc;id=t2a;link_karma;icon_img=a.png;''\<rparr>
            (snd (redirect_url test_env test_handler start_req None 123456 empty_ds)))"
proof -
  have s: "str_int 123456 = ''123456''"
    by (simp add: str_int_def str_nat.simps digit_char_def)
  have b: "[(''state'', ''123456''), (''to_path'', ''/cb'')]
      = [(''state'', str_int 123456), (''to_path'', to_path test_handler)]"
    by (simp add: s test_handler_def)
  have enc: "encode_oauth_state test_env [(''state'', ''123456''), (''to_path'', ''/cb'')]
      = ''123456|/cb''"
    by (simp add: test_env_def test_encode_def)
  have dec: "decode_oauth_state test_env
        (encode_oauth_state test_env [(''state'', ''123456''), (''to_path'', ''/cb'')])
      = Inr [(''state'', ''123456''), (''to_path'', ''/cb'')]"
    unfolding enc by (simp add: test_env_def test_decode_blob)
  have st: "request_get (callback_req ''abc123'') ''state''
      = encode_oauth_state test_env [(''state'', ''123456''), (''to_path'', ''/cb'')]"
    by (simp add: enc callback_req_params)
  have au: "auth_authorize
        (praw_Reddit test_env
           \<lparr>client_id = REDDIT_APP_KEY test_env, client_secret = REDDIT_APP_SECRET test_env,
            redirect_uri = host_url (callback_req ''abc123'') @ to_path test_handler,
            user_agent = USER_AGENT\<rparr>) ''abc123'' = Inr (Some ''rt1'')"
    and me: "user_me
        (praw_Reddit test_env
           \<lparr>client_id = REDDIT_APP_KEY test_env, client_secret = REDDIT_APP_SECRET test_env,
            redirect_uri = host_url (callback_req ''abc123'') @ to_path test_handler,
            user_agent = USER_AGENT\<rparr>) = Inr alice"
    by (simp_all add: test_env_def test_reddit_def)
  have attrs: "map_of (attributes alice) ''name'' = Some (PyStr ''alice'')"
    "map_of (attributes alice) ''comment_karma'' = Some (PyInt 10)"
    "map_of (attributes alice) ''created_utc'' = Some (PyFloat 1500000000)"
    "map_of (attributes alice) ''id'' = Some (PyStr ''t2a'')"
    "map_of (attributes alice) ''link_karma'' = Some (PyInt 3)"
    "map_of (attributes alice) ''icon_img'' = Some (PyStr ''a.png'')"
    by (simp_all add: alice_def)
  have js: "\<lparr>auth_id = ''alice'', refresh_token = ''rt1'',
        user_json = ''name=alice;comment_karma;created_utc;id=t2a;link_karma;icon_img=a.png;''\<rparr>
      = \<lparr>auth_id = ''alice'', refresh_token = ''rt1'',
         user_json = json_dumps test_env
           [(''name'', PyStr ''alice''), (''comment_karma'', PyInt 10),
            (''created_utc'', PyFloat 1500000000), (''id'', PyStr ''t2a''),
            (''link_karma'', PyInt 3), (''icon_img'', PyStr ''a.png'')]\<rparr>"
    by (simp add: test_env_def test_json_dumps_def)
  have u: "auth_url
       (praw_Reddit test_env
          \<lparr>client_id = REDDIT_APP_KEY test_env, client_secret = REDDIT_APP_SECRET test_env,
           redirect_uri = host_url start_req @ to_path test_handler,
           user_agent = USER_AGENT\<rparr>)
       [''identity'']
       (encode_oauth_state test_env [(''state'', ''123456''), (''to_path'', ''/cb'')])
       ''permanent''
     = ''https://www.reddit.com/api/v1/authorize?scope=identity''
       @ ''&state=123456|/cb&duration=permanent'' @ ''&redirect_uri=https://app.example/cb''"
    unfolding enc by (simp add: test_env_def test_reddit_def test_handler_def start_req_def)
  note run = start_then_callback_end_to_end
    [where ?req1.0 = start_req and ?ds0.0 = empty_ds,
      OF test_env_configured _ _ b dec callback_req_params(1) st callback_req_params(3)
      refl au me alice_str_of attrs refl js refl]
  show ?thesis
    using run unfolding u s by simp
qed

end
